theory Spec2Isabelle
  imports Complex_Main "HOL-Library.Stream"
begin

section \<open>JavaScript values used by the discount engine\<close>

text \<open>
  A JavaScript Number is modelled as either \<open>NaN\<close> or a real number. Rounding of
  IEEE doubles and the two infinities are not modelled: no branch of the discount
  controller or of the Discount schema divides by anything but the literal 100, and
  every comparison below is with a finite number. What is modelled is the behaviour of
  \<open>NaN\<close>: arithmetic propagates it, every comparison with it is false, and
  \<open>Math.max\<close> returns it.
\<close>

datatype jsnum = NaN | Num real

fun isNaN :: "jsnum \<Rightarrow> bool" where
  "isNaN NaN = True"
| "isNaN (Num _) = False"

fun js_add :: "jsnum \<Rightarrow> jsnum \<Rightarrow> jsnum" where
  "js_add (Num a) (Num b) = Num (a + b)"
| "js_add _ _ = NaN"

fun js_sub :: "jsnum \<Rightarrow> jsnum \<Rightarrow> jsnum" where
  "js_sub (Num a) (Num b) = Num (a - b)"
| "js_sub _ _ = NaN"

fun js_mul :: "jsnum \<Rightarrow> jsnum \<Rightarrow> jsnum" where
  "js_mul (Num a) (Num b) = Num (a * b)"
| "js_mul _ _ = NaN"

text \<open>Division by the literal 100, the only division of the controller.\<close>

fun js_div100 :: "jsnum \<Rightarrow> jsnum" where
  "js_div100 (Num a) = Num (a / 100)"
| "js_div100 NaN = NaN"

fun js_lt :: "jsnum \<Rightarrow> jsnum \<Rightarrow> bool" where
  "js_lt (Num a) (Num b) = (a < b)"
| "js_lt _ _ = False"

fun js_gt :: "jsnum \<Rightarrow> jsnum \<Rightarrow> bool" where
  "js_gt (Num a) (Num b) = (a > b)"
| "js_gt _ _ = False"

fun js_ge :: "jsnum \<Rightarrow> jsnum \<Rightarrow> bool" where
  "js_ge (Num a) (Num b) = (a \<ge> b)"
| "js_ge _ _ = False"

fun Math_max :: "jsnum \<Rightarrow> jsnum \<Rightarrow> jsnum" where
  "Math_max (Num a) (Num b) = Num (max a b)"
| "Math_max _ _ = NaN"

text \<open>Truthiness of a Number: \<open>0\<close> and \<open>NaN\<close> are falsy.\<close>

fun truthy :: "jsnum \<Rightarrow> bool" where
  "truthy (Num a) = (a \<noteq> 0)"
| "truthy NaN = False"

text \<open>The idiom \<open>x || 0\<close> on a Number.\<close>

definition or0 :: "jsnum \<Rightarrow> jsnum" where
  "or0 x = (if truthy x then x else Num 0)"

text \<open>
  A request parameter that the handlers read as an amount (\<open>req.query.orderAmount\<close>,
  \<open>req.body.orderAmount\<close>, \<open>req.body.value\<close>, ...). It is absent (\<open>undefined\<close>),
  the empty string, a JSON number, or a non-empty string; a non-empty string is
  represented by the Number that \<open>parseFloat\<close> reads from it (\<open>NaN\<close> for a string
  such as "abc"). A non-empty string is truthy whatever it reads as: "0" is truthy.
\<close>

datatype param = Absent | EmptyStr | NumLit real | Text jsnum

fun truthy_param :: "param \<Rightarrow> bool" where
  "truthy_param Absent = False"
| "truthy_param EmptyStr = False"
| "truthy_param (NumLit r) = (r \<noteq> 0)"
| "truthy_param (Text _) = True"

fun parseFloat :: "param \<Rightarrow> jsnum" where
  "parseFloat Absent = NaN"
| "parseFloat EmptyStr = NaN"
| "parseFloat (NumLit r) = Num r"
| "parseFloat (Text n) = n"

text \<open>
  \<open>parseInt\<close> drops the fraction of what it reads (strings in exponent notation,
  which \<open>parseInt\<close> and \<open>parseFloat\<close> read differently, are not modelled).
\<close>

fun trunc :: "jsnum \<Rightarrow> jsnum" where
  "trunc NaN = NaN"
| "trunc (Num r) = Num (if 0 \<le> r then of_int \<lfloor>r\<rfloor> else of_int \<lceil>r\<rceil>)"

definition parseInt :: "param \<Rightarrow> jsnum" where
  "parseInt p = trunc (parseFloat p)"

text \<open>
  \<open>String.prototype.toUpperCase\<close> on ASCII text (the alphabet of discount codes).
\<close>

definition upper_char :: "char \<Rightarrow> char" where
  "upper_char c =
     (case map_of (zip ''abcdefghijklmnopqrstuvwxyz'' ''ABCDEFGHIJKLMNOPQRSTUVWXYZ'') c of
        None \<Rightarrow> c
      | Some u \<Rightarrow> u)"

definition toUpperCase :: "string \<Rightarrow> string" where
  "toUpperCase s = map upper_char s"

text \<open>
  \<open>String.prototype.trim\<close> on ASCII text: white space and line ends go, at both
  ends.
\<close>

definition isSpace :: "char \<Rightarrow> bool" where
  "isSpace c =
     (c = CHR '' '' \<or> c = CHR 0x09 \<or> c = CHR 0x0A \<or> c = CHR 0x0B \<or> c = CHR 0x0C \<or>
      c = CHR 0x0D)"

definition trim :: "string \<Rightarrow> string" where
  "trim s = rev (dropWhile isSpace (rev (dropWhile isSpace s)))"

section \<open>The Discount document (models/shop/Discount.js)\<close>

datatype status = Active | Upcoming | Expired | Paused

datatype dtype = Percentage | Fixed

text \<open>
  The fields of the schema that the discount engine reads or writes. Dates are
  milliseconds since the epoch, as \<open>Date\<close> comparison compares them; \<open>null\<close> is
  \<open>None\<close>. The remaining schema fields (description, image, customerType, appliesTo,
  categories, products, oneTimeUse, combineWithOther, excludeSaleItems, timestamps) are
  stored and returned but never read by a branch of the handlers modelled here.
\<close>

record discount =
  did :: nat
  name :: string
  code :: string
  dtype :: dtype
  dvalue :: jsnum
  minOrder :: jsnum
  maxDiscount :: jsnum
  startDate :: int
  endDate :: int
  usageLimit :: "jsnum option"
  usedCount :: jsnum
  remainingUses :: "jsnum option"
  status :: status
  revenueGenerated :: jsnum
  ordersUsed :: jsnum
  createdBy :: nat

subsection \<open>Schema setters\<close>

text \<open>
  The path \<open>code\<close> is declared with \<open>uppercase: true\<close> and \<open>trim: true\<close>, the
  path \<open>name\<close> with \<open>trim: true\<close>. Mongoose applies these setters to every value
  it casts for the path: the value of a new document, the value of an update, and the
  value a query filter compares the path with.
\<close>

definition castCode :: "string \<Rightarrow> string" where
  "castCode s = toUpperCase (trim s)"

definition castName :: "string \<Rightarrow> string" where
  "castName s = trim s"

subsection \<open>Schema validators\<close>

text \<open>
  A Number path rejects \<open>NaN\<close> at cast time; \<open>min\<close> validators bound it from below.
\<close>

fun minOk :: "real \<Rightarrow> jsnum \<Rightarrow> bool" where
  "minOk lo (Num r) = (lo \<le> r)"
| "minOk lo NaN = False"

fun optMinOk :: "real \<Rightarrow> jsnum option \<Rightarrow> bool" where
  "optMinOk lo None = True"
| "optMinOk lo (Some n) = minOk lo n"

fun optNumber :: "jsnum option \<Rightarrow> bool" where
  "optNumber None = True"
| "optNumber (Some n) = (\<not> isNaN n)"

definition schemaValid :: "discount \<Rightarrow> bool" where
  "schemaValid d =
     (name d \<noteq> [] \<and> length (name d) \<le> 100 \<and>
      code d \<noteq> [] \<and> length (code d) \<le> 20 \<and>
      minOk 0 (dvalue d) \<and> minOk 0 (minOrder d) \<and> minOk 0 (maxDiscount d) \<and>
      optMinOk 1 (usageLimit d) \<and> minOk 0 (usedCount d) \<and>
      optNumber (remainingUses d) \<and>
      minOk 0 (revenueGenerated d) \<and> minOk 0 (ordersUsed d))"

subsection \<open>The pre-save hook\<close>

text \<open>
  \<open>discountSchema.pre("save")\<close>: recompute \<open>remainingUses\<close>, then derive the
  status from the dates unless the document is paused. \<open>now\<close> is \<open>new Date()\<close>.
\<close>

definition preSave :: "int \<Rightarrow> discount \<Rightarrow> discount" where
  "preSave now d =
     (let d1 =
        (case usageLimit d of
           Some l \<Rightarrow>
             (let u = or0 (usedCount d)
              in if \<not> isNaN l \<and> \<not> isNaN u
                 then d\<lparr>remainingUses := Some (Math_max (Num 0) (js_sub l u))\<rparr>
                 else d\<lparr>remainingUses := None\<rparr>)
         | None \<Rightarrow> d\<lparr>remainingUses := None\<rparr>)
      in if status d1 \<noteq> Paused
         then (if now < startDate d1 then d1\<lparr>status := Upcoming\<rparr>
               else if now > endDate d1 then d1\<lparr>status := Expired\<rparr>
               else d1\<lparr>status := Active\<rparr>)
         else d1)"

section \<open>The collection and its persistence\<close>

text \<open>
  The Discount collection is the list of its documents. \<open>findOne\<close> with the filter
  \<open>{code, createdBy}\<close> and \<open>findById\<close> return the first match; the code of the
  filter is cast by the setters of the path before it is compared.
\<close>

type_synonym store = "discount list"

definition findOne :: "string \<Rightarrow> nat \<Rightarrow> store \<Rightarrow> discount option" where
  "findOne c owner st = find (\<lambda>d. code d = castCode c \<and> createdBy d = owner) st"

definition findById :: "nat \<Rightarrow> store \<Rightarrow> discount option" where
  "findById i st = find (\<lambda>d. did d = i) st"

text \<open>
  The schema declares \<open>code\<close> with \<open>unique: true\<close>: a unique index over the whole
  collection, whatever the owner. A write whose code another document already holds
  fails with a duplicate-key error.
\<close>

definition codeTaken :: "string \<Rightarrow> nat \<Rightarrow> store \<Rightarrow> bool" where
  "codeTaken c i st = list_ex (\<lambda>d. code d = c \<and> did d \<noteq> i) st"

definition replaceById :: "discount \<Rightarrow> store \<Rightarrow> store" where
  "replaceById d st = map (\<lambda>e. if did e = did d then d else e) st"

definition newId :: "store \<Rightarrow> nat" where
  "newId st = Suc (fold max (map did st) 0)"

text \<open>
  \<open>document.save()\<close> on a loaded document. \<open>loaded\<close> is the document as the
  query returned it and \<open>d\<close> the document as the handler holds it. A path is modified
  when its value differs from the loaded one. The built-in validation runs first, on
  the required paths and on the modified ones; then the pre-save hook runs at time
  \<open>now\<close>; then the modified paths, those the hook changed among them, are written
  with \<open>$set\<close> to the stored document of that id, whose other paths stay as they are
  in the store. \<open>None\<close> is a thrown error; nothing is written then.
\<close>

definition pathOk :: "'a \<Rightarrow> 'a \<Rightarrow> bool \<Rightarrow> bool" where
  "pathOk loaded held ok = (if held = loaded then True else ok)"

definition saveValid :: "discount \<Rightarrow> discount \<Rightarrow> bool" where
  "saveValid loaded d =
     (name d \<noteq> [] \<and> code d \<noteq> [] \<and>
      pathOk (name loaded) (name d) (length (name d) \<le> 100) \<and>
      pathOk (code loaded) (code d) (length (code d) \<le> 20) \<and>
      pathOk (dvalue loaded) (dvalue d) (minOk 0 (dvalue d)) \<and>
      pathOk (minOrder loaded) (minOrder d) (minOk 0 (minOrder d)) \<and>
      pathOk (maxDiscount loaded) (maxDiscount d) (minOk 0 (maxDiscount d)) \<and>
      pathOk (usageLimit loaded) (usageLimit d) (optMinOk 1 (usageLimit d)) \<and>
      pathOk (usedCount loaded) (usedCount d) (minOk 0 (usedCount d)) \<and>
      pathOk (remainingUses loaded) (remainingUses d) (optNumber (remainingUses d)) \<and>
      pathOk (revenueGenerated loaded) (revenueGenerated d) (minOk 0 (revenueGenerated d)) \<and>
      pathOk (ordersUsed loaded) (ordersUsed d) (minOk 0 (ordersUsed d)))"

definition pick :: "'a \<Rightarrow> 'a \<Rightarrow> 'a \<Rightarrow> 'a" where
  "pick loaded held stored = (if held = loaded then stored else held)"

definition writeModified :: "discount \<Rightarrow> discount \<Rightarrow> discount \<Rightarrow> discount" where
  "writeModified loaded held stored =
     stored\<lparr>name := pick (name loaded) (name held) (name stored),
            code := pick (code loaded) (code held) (code stored),
            dtype := pick (dtype loaded) (dtype held) (dtype stored),
            dvalue := pick (dvalue loaded) (dvalue held) (dvalue stored),
            minOrder := pick (minOrder loaded) (minOrder held) (minOrder stored),
            maxDiscount := pick (maxDiscount loaded) (maxDiscount held) (maxDiscount stored),
            startDate := pick (startDate loaded) (startDate held) (startDate stored),
            endDate := pick (endDate loaded) (endDate held) (endDate stored),
            usageLimit := pick (usageLimit loaded) (usageLimit held) (usageLimit stored),
            usedCount := pick (usedCount loaded) (usedCount held) (usedCount stored),
            remainingUses :=
              pick (remainingUses loaded) (remainingUses held) (remainingUses stored),
            status := pick (status loaded) (status held) (status stored),
            revenueGenerated :=
              pick (revenueGenerated loaded) (revenueGenerated held) (revenueGenerated stored),
            ordersUsed := pick (ordersUsed loaded) (ordersUsed held) (ordersUsed stored),
            createdBy := pick (createdBy loaded) (createdBy held) (createdBy stored)\<rparr>"

definition writeBack :: "discount \<Rightarrow> discount \<Rightarrow> store \<Rightarrow> store" where
  "writeBack loaded held st =
     map (\<lambda>e. if did e = did loaded then writeModified loaded held e else e) st"

definition save ::
  "int \<Rightarrow> discount \<Rightarrow> discount \<Rightarrow> store \<Rightarrow> (discount \<times> store) option" where
  "save now loaded d st =
     (if \<not> saveValid loaded d then None
      else let d' = preSave now d
           in if findById (did loaded) st = None then None
              else Some (d', writeBack loaded d' st))"

text \<open>
  \<open>Model.create\<close> saves a new document: every path is validated, the hook runs, and
  the document is appended unless the unique index refuses its code.
\<close>

definition create :: "int \<Rightarrow> discount \<Rightarrow> store \<Rightarrow> (discount \<times> store) option" where
  "create now d st =
     (if \<not> schemaValid d then None
      else let d' = preSave now d
           in if codeTaken (code d') (did d') st then None
              else Some (d', st @ [d']))"

section \<open>Responses\<close>

text \<open>
  A response is its HTTP status, its \<open>success\<close> flag, its message and its
  \<open>data\<close>. The one message built from a template is kept as a constructor.
\<close>

datatype msg = Lit string | MinimumOrderAmountIs jsnum

datatype payload =
    NoData
  | StartDateData int
  | EndDateData int
  | MinOrderData jsnum
  | ValidData discount jsnum jsnum
  | UsageData nat string jsnum "jsnum option" jsnum
  | DocData discount
  | ErrorData

datatype response = Response nat bool msg payload

section \<open>validateDiscountCode (GET /api/discounts/validate/:code)\<close>

text \<open>
  \<open>discount.usageLimit && discount.usedCount >= discount.usageLimit\<close>, the limit
  check of the validator, of the usage handler and of \<open>isValidCode\<close>.
\<close>

definition limitReached :: "discount \<Rightarrow> bool" where
  "limitReached d =
     (case usageLimit d of
        None \<Rightarrow> False
      | Some l \<Rightarrow> truthy l \<and> js_ge (usedCount d) l)"

text \<open>
  The handler returns its response and the collection it leaves behind. \<open>now\<close> is
  \<open>new Date()\<close>, \<open>user\<close> is \<open>req.user.id\<close>, \<open>c\<close> is \<open>req.params.code\<close> and
  \<open>orderAmount\<close> is \<open>req.query.orderAmount\<close>.
\<close>

definition validateDiscountCode ::
  "int \<Rightarrow> nat \<Rightarrow> string \<Rightarrow> param \<Rightarrow> store \<Rightarrow> response \<times> store" where
  "validateDiscountCode now user c orderAmount st =
     (if c = [] then (Response 400 False (Lit ''Discount code is required'') NoData, st)
      else
        (case findOne (toUpperCase c) user st of
           None \<Rightarrow> (Response 404 False (Lit ''Discount code not found'') NoData, st)
         | Some discount \<Rightarrow>
             if now < startDate discount
             then (Response 400 False (Lit ''Discount is not active yet'')
                     (StartDateData (startDate discount)), st)
             else if now > endDate discount
             then (Response 400 False (Lit ''Discount has expired'')
                     (EndDateData (endDate discount)), st)
             else if status discount \<noteq> Active
             then (Response 400 False (Lit ''Discount is not active'') NoData, st)
             else if limitReached discount
             then (Response 400 False (Lit ''Discount usage limit reached'') NoData, st)
             else if truthy_param orderAmount \<and> js_gt (minOrder discount) (Num 0) \<and>
                     js_lt (parseFloat orderAmount) (minOrder discount)
             then (Response 400 False (MinimumOrderAmountIs (minOrder discount))
                     (MinOrderData (minOrder discount)), st)
             else
               (let discountAmount =
                      (if dtype discount = Percentage
                       then (let a = js_div100 (js_mul (parseFloat orderAmount) (dvalue discount))
                             in if js_gt (maxDiscount discount) (Num 0) \<and>
                                   js_gt a (maxDiscount discount)
                                then maxDiscount discount else a)
                       else dvalue discount);
                    finalAmount =
                      Math_max (Num 0) (js_sub (parseFloat orderAmount) discountAmount)
                in (Response 200 True (Lit ''Discount code is valid'')
                      (ValidData discount discountAmount finalAmount), st))))"

section \<open>updateDiscountUsage (PATCH /api/discounts/:id/use)\<close>

text \<open>
  The handler has two store operations, each behind an \<open>await\<close>:
  \<open>Discount.findById\<close> and \<open>discount.save()\<close>. \<open>usageLoad\<close> is the handler up to
  the first, \<open>usageCommit\<close> the rest, run on the loaded document against the collection
  as it is when the save arrives. \<open>orderId\<close> is the empty string when absent;
  \<open>now\<close> is the handler's \<open>new Date()\<close> and \<open>now'\<close> the hook's.
\<close>

definition usageLoad :: "nat \<Rightarrow> string \<Rightarrow> param \<Rightarrow> store \<Rightarrow> response + discount" where
  "usageLoad i orderId orderAmount st =
     (if orderId = [] \<or> \<not> truthy_param orderAmount
      then Inl (Response 400 False (Lit ''Order ID and amount are required'') NoData)
      else
        (case findById i st of
           None \<Rightarrow> Inl (Response 404 False (Lit ''Discount not found'') NoData)
         | Some discount \<Rightarrow> Inr discount))"

definition usageCommit ::
  "int \<Rightarrow> int \<Rightarrow> param \<Rightarrow> discount \<Rightarrow> store \<Rightarrow> response \<times> store" where
  "usageCommit now now' orderAmount discount st =
     (if now < startDate discount \<or> now > endDate discount \<or> status discount \<noteq> Active
      then (Response 400 False (Lit ''Discount is not active'') NoData, st)
      else if limitReached discount
      then (Response 400 False (Lit ''Discount usage limit reached'') NoData, st)
      else
        (case save now' discount
                (discount\<lparr>usedCount := js_add (usedCount discount) (Num 1),
                           ordersUsed := js_add (ordersUsed discount) (Num 1),
                           revenueGenerated :=
                             js_add (revenueGenerated discount) (parseFloat orderAmount)\<rparr>)
                st of
           None \<Rightarrow> (Response 500 False (Lit ''Error updating discount usage'') ErrorData, st)
         | Some (saved, st') \<Rightarrow>
             (Response 200 True (Lit ''Discount usage updated'')
                (UsageData (did saved) (code saved) (usedCount saved) (remainingUses saved)
                   (revenueGenerated saved)), st')))"

definition updateDiscountUsage ::
  "int \<Rightarrow> int \<Rightarrow> nat \<Rightarrow> string \<Rightarrow> param \<Rightarrow> store \<Rightarrow> response \<times> store" where
  "updateDiscountUsage now now' i orderId orderAmount st =
     (case usageLoad i orderId orderAmount st of
        Inl r \<Rightarrow> (r, st)
      | Inr discount \<Rightarrow> usageCommit now now' orderAmount discount st)"

text \<open>
  The success flag of a response, and the limit condition in the spec's words
  ("usageLimit set and usedCount >= usageLimit"), to compare with \<open>limitReached\<close>.
\<close>

fun succeeded :: "response \<Rightarrow> bool" where
  "succeeded (Response c s m p) = s"

definition limit_exhausted :: "discount \<Rightarrow> bool" where
  "limit_exhausted d =
     (case usageLimit d of None \<Rightarrow> False | Some l \<Rightarrow> js_ge (usedCount d) l)"

subsection \<open>Calls that overlap\<close>

text \<open>
  A request of the usage handler for the discount \<open>i\<close>: the instants of its two
  \<open>new Date()\<close> (the handler's and the hook's), its order id and its order amount.
  A call is pending, has loaded its document, or has answered. One step of a call is
  one of its two store operations; a schedule names the call that moves next.
\<close>

type_synonym request = "int \<times> int \<times> string \<times> param"

datatype phase = Pending | Loaded discount | Finished response

fun stepCall :: "nat \<Rightarrow> request \<times> phase \<Rightarrow> store \<Rightarrow> (request \<times> phase) \<times> store" where
  "stepCall i ((now, now', orderId, orderAmount), Pending) st =
     (case usageLoad i orderId orderAmount st of
        Inl r \<Rightarrow> (((now, now', orderId, orderAmount), Finished r), st)
      | Inr discount \<Rightarrow> (((now, now', orderId, orderAmount), Loaded discount), st))"
| "stepCall i ((now, now', orderId, orderAmount), Loaded discount) st =
     (case usageCommit now now' orderAmount discount st of
        (r, st') \<Rightarrow> (((now, now', orderId, orderAmount), Finished r), st'))"
| "stepCall i (rq, Finished r) st = ((rq, Finished r), st)"

fun runSchedule ::
  "nat \<Rightarrow> nat list \<Rightarrow> (request \<times> phase) list \<times> store \<Rightarrow> (request \<times> phase) list \<times> store" where
  "runSchedule i [] cfg = cfg"
| "runSchedule i (k # ks) (calls, st) =
     (if k < length calls
      then (case stepCall i (calls ! k) st of
              (c', st') \<Rightarrow> runSchedule i ks (calls[k := c'], st'))
      else runSchedule i ks (calls, st))"

text \<open>Calls that run one after the other, each to its end.\<close>

fun recordAll :: "nat \<Rightarrow> request list \<Rightarrow> store \<Rightarrow> response list \<times> store" where
  "recordAll i [] st = ([], st)"
| "recordAll i ((now, now', orderId, orderAmount) # rest) st =
     (case updateDiscountUsage now now' i orderId orderAmount st of
        (r, st') \<Rightarrow>
          (case recordAll i rest st' of
             (rs, st'') \<Rightarrow> (r # rs, st'')))"

text \<open>A well-formed request made at instants inside the window of the discount.\<close>

fun requestOk :: "discount \<Rightarrow> request \<Rightarrow> bool" where
  "requestOk d (now, now', orderId, orderAmount) =
     (orderId \<noteq> [] \<and> truthy_param orderAmount \<and> minOk 0 (parseFloat orderAmount) \<and>
      startDate d \<le> now \<and> now \<le> endDate d \<and> startDate d \<le> now' \<and> now' \<le> endDate d)"

section \<open>createDiscount (POST /api/discounts)\<close>

definition validateDates :: "int \<Rightarrow> int \<Rightarrow> int \<Rightarrow> string option" where
  "validateDates now startD endD =
     (if startD > endD then Some ''End date must be after start date''
      else if endD < now then Some ''End date must be in the future''
      else None)"

text \<open>
  \<open>generateDiscountCode\<close>: the loop draws candidates until one is free for the
  owner. The stream holds the successive candidates (each the eight random draws of the
  inner loop); the loop has no bound, so not returning is \<open>None\<close>.
\<close>

partial_function (option) generateDiscountCode ::
  "string stream \<Rightarrow> nat \<Rightarrow> store \<Rightarrow> string option" where
  "generateDiscountCode cands shopOwnerId st =
     (case findOne (shd cands) shopOwnerId st of
        None \<Rightarrow> Some (shd cands)
      | Some existing \<Rightarrow> generateDiscountCode (stl cands) shopOwnerId st)"

text \<open>
  The request body of a creation, field by field: a string is empty when the field is
  absent, a date is \<open>None\<close> when absent and otherwise the instant the string denotes.
  The \<open>enum\<close> validator of \<open>type\<close> accepts two strings.
\<close>

record create_body =
  cb_name :: string
  cb_code :: string
  cb_type :: string
  cb_value :: param
  cb_minOrder :: param
  cb_maxDiscount :: param
  cb_startDate :: "int option"
  cb_endDate :: "int option"
  cb_usageLimit :: param

definition castType :: "string \<Rightarrow> dtype option" where
  "castType s =
     (if s = ''percentage'' then Some Percentage
      else if s = ''fixed'' then Some Fixed
      else None)"

text \<open>
  Building \<open>discountData\<close> and \<open>Discount.create\<close>: the setters of \<open>name\<close> and
  \<open>code\<close> cast what the handler passes, schema defaults fill the counters and the
  status, the new id is fresh, and every thrown error is answered with status 500 by
  the handler's \<open>catch\<close>.
\<close>

definition createWith ::
  "int \<Rightarrow> nat \<Rightarrow> create_body \<Rightarrow> int \<Rightarrow> int \<Rightarrow> string \<Rightarrow> store \<Rightarrow> response \<times> store" where
  "createWith now' user b startD endD discountCode st =
     (case castType (cb_type b) of
        None \<Rightarrow> (Response 500 False (Lit ''Error creating discount'') ErrorData, st)
      | Some t \<Rightarrow>
          (case create now'
                  \<lparr>did = newId st, name = castName (cb_name b),
                   code = castCode (toUpperCase discountCode),
                   dtype = t, dvalue = parseFloat (cb_value b),
                   minOrder = (if truthy_param (cb_minOrder b)
                               then parseFloat (cb_minOrder b) else Num 0),
                   maxDiscount = (if truthy_param (cb_maxDiscount b)
                                  then parseFloat (cb_maxDiscount b) else Num 0),
                   startDate = startD, endDate = endD,
                   usageLimit = (if truthy_param (cb_usageLimit b)
                                 then Some (parseInt (cb_usageLimit b)) else None),
                   usedCount = Num 0, remainingUses = None, status = Active,
                   revenueGenerated = Num 0, ordersUsed = Num 0, createdBy = user\<rparr>
                  st of
             None \<Rightarrow> (Response 500 False (Lit ''Error creating discount'') ErrorData, st)
           | Some (d, st') \<Rightarrow>
               (Response 201 True (Lit ''Discount created successfully'') (DocData d), st')))"

definition createDiscount ::
  "int \<Rightarrow> int \<Rightarrow> string stream \<Rightarrow> nat \<Rightarrow> create_body \<Rightarrow> store \<Rightarrow>
   (response \<times> store) option" where
  "createDiscount now now' cands user b st =
     (if cb_name b = [] \<or> cb_type b = [] \<or> \<not> truthy_param (cb_value b)
      then Some (Response 400 False
                   (Lit ''Name, type, value, start date, and end date are required'') NoData, st)
      else
        (case cb_startDate b of
           None \<Rightarrow> Some (Response 400 False
                   (Lit ''Name, type, value, start date, and end date are required'') NoData, st)
         | Some startD \<Rightarrow>
        (case cb_endDate b of
           None \<Rightarrow> Some (Response 400 False
                   (Lit ''Name, type, value, start date, and end date are required'') NoData, st)
         | Some endD \<Rightarrow>
        (case validateDates now startD endD of
           Some dateError \<Rightarrow> Some (Response 400 False (Lit dateError) NoData, st)
         | None \<Rightarrow>
             if cb_code b = []
             then (case generateDiscountCode cands user st of
                     None \<Rightarrow> None
                   | Some discountCode \<Rightarrow>
                       Some (createWith now' user b startD endD discountCode st))
             else
               (case findOne (toUpperCase (cb_code b)) user st of
                  Some existing \<Rightarrow>
                    Some (Response 400 False
                            (Lit ''Discount code already exists for your shop'') NoData, st)
                | None \<Rightarrow> Some (createWith now' user b startD endD (cb_code b) st))))))"

section \<open>updateDiscount (PUT /api/discounts/:id)\<close>

text \<open>
  The handler spreads the whole request body into \<open>updateData\<close> and passes it to
  \<open>findByIdAndUpdate\<close>, so the body may name any path of the schema, and it may carry
  update operators. Its top-level keys are optional (\<open>None\<close>, \<open>Absent\<close>) and are
  written with \<open>$set\<close>; the counters are given as Mongoose's Number cast reads them.
  Of the update operators the model has \<open>$inc\<close> on the Number paths, as a list of
  paths and amounts with no path twice (the keys of one JSON object); the other
  operators (\<open>$mul\<close>, \<open>$min\<close>, \<open>$max\<close>, \<open>$unset\<close>, ...) are not modelled.
\<close>

datatype numpath =
    PValue | PMinOrder | PMaxDiscount | PUsageLimit | PUsedCount | PRemainingUses
  | PRevenueGenerated | POrdersUsed

record update_body =
  ub_name :: "string option"
  ub_code :: "string option"
  ub_type :: "string option"
  ub_value :: param
  ub_minOrder :: param
  ub_maxDiscount :: param
  ub_startDate :: "int option"
  ub_endDate :: "int option"
  ub_usageLimit :: param
  ub_status :: "status option"
  ub_usedCount :: "jsnum option"
  ub_remainingUses :: "jsnum option"
  ub_revenueGenerated :: "jsnum option"
  ub_ordersUsed :: "jsnum option"
  ub_createdBy :: "nat option"
  ub_inc :: "(numpath \<times> jsnum) list"

definition emptyBody :: update_body where
  "emptyBody =
     \<lparr>ub_name = None, ub_code = None, ub_type = None, ub_value = Absent,
      ub_minOrder = Absent, ub_maxDiscount = Absent, ub_startDate = None,
      ub_endDate = None, ub_usageLimit = Absent, ub_status = None, ub_usedCount = None,
      ub_remainingUses = None, ub_revenueGenerated = None, ub_ordersUsed = None,
      ub_createdBy = None, ub_inc = []\<rparr>"

text \<open>
  \<open>runValidators: true\<close>: the validators of the paths that \<open>$set\<close> writes, after
  the handler's conversions (\<open>parseFloat\<close>, \<open>parseInt\<close> or \<open>null\<close>) and the
  setters of the path. Update validators do not run on \<open>$inc\<close>; its amounts are only
  cast to Number.
\<close>

fun textOk :: "nat \<Rightarrow> string option \<Rightarrow> bool" where
  "textOk n None = True"
| "textOk n (Some s) = (s \<noteq> [] \<and> length s \<le> n)"

fun amountOk :: "param \<Rightarrow> bool" where
  "amountOk Absent = True"
| "amountOk p = minOk 0 (parseFloat p)"

fun limitOk :: "param \<Rightarrow> bool" where
  "limitOk Absent = True"
| "limitOk p = (if truthy_param p then minOk 1 (parseInt p) else True)"

fun typeOk :: "string option \<Rightarrow> bool" where
  "typeOk None = True"
| "typeOk (Some s) = (castType s \<noteq> None)"

definition updateValid :: "update_body \<Rightarrow> bool" where
  "updateValid b =
     (textOk 100 (map_option castName (ub_name b)) \<and>
      textOk 20 (map_option castCode (ub_code b)) \<and> typeOk (ub_type b) \<and>
      amountOk (ub_value b) \<and> amountOk (ub_minOrder b) \<and> amountOk (ub_maxDiscount b) \<and>
      limitOk (ub_usageLimit b) \<and> optMinOk 0 (ub_usedCount b) \<and>
      optNumber (ub_remainingUses b) \<and> optMinOk 0 (ub_revenueGenerated b) \<and>
      optMinOk 0 (ub_ordersUsed b) \<and>
      list_all (\<lambda>(p, a). \<not> isNaN a) (ub_inc b))"

text \<open>Whether the body gives a field, and the field after the update.\<close>

fun present :: "'a option \<Rightarrow> bool" where
  "present None = False"
| "present (Some v) = True"

fun given :: "param \<Rightarrow> bool" where
  "given Absent = False"
| "given p = True"

fun orKeep :: "'a option \<Rightarrow> 'a \<Rightarrow> 'a" where
  "orKeep None old = old"
| "orKeep (Some v) old = v"

fun amountOrKeep :: "param \<Rightarrow> jsnum \<Rightarrow> jsnum" where
  "amountOrKeep Absent old = old"
| "amountOrKeep p old = parseFloat p"

fun limitOrKeep :: "param \<Rightarrow> jsnum option \<Rightarrow> jsnum option" where
  "limitOrKeep Absent old = old"
| "limitOrKeep p old = (if truthy_param p then Some (parseInt p) else None)"

text \<open>The document after \<open>$set\<close> of every top-level key of \<open>updateData\<close>.\<close>

definition applyUpdate :: "update_body \<Rightarrow> discount \<Rightarrow> discount" where
  "applyUpdate b d =
     d\<lparr>name := orKeep (map_option castName (ub_name b)) (name d),
       code := orKeep (map_option castCode (ub_code b)) (code d),
       dtype := orKeep (case ub_type b of None \<Rightarrow> None | Some s \<Rightarrow> castType s) (dtype d),
       dvalue := amountOrKeep (ub_value b) (dvalue d),
       minOrder := amountOrKeep (ub_minOrder b) (minOrder d),
       maxDiscount := amountOrKeep (ub_maxDiscount b) (maxDiscount d),
       startDate := orKeep (ub_startDate b) (startDate d),
       endDate := orKeep (ub_endDate b) (endDate d),
       usageLimit := limitOrKeep (ub_usageLimit b) (usageLimit d),
       usedCount := orKeep (ub_usedCount b) (usedCount d),
       remainingUses := (case ub_remainingUses b of
                           None \<Rightarrow> remainingUses d | Some r \<Rightarrow> Some r),
       status := orKeep (ub_status b) (status d),
       revenueGenerated := orKeep (ub_revenueGenerated b) (revenueGenerated d),
       ordersUsed := orKeep (ub_ordersUsed b) (ordersUsed d),
       createdBy := orKeep (ub_createdBy b) (createdBy d)\<rparr>"

text \<open>
  \<open>$inc\<close> adds its amount to a stored number; the server refuses it on a path that
  holds \<open>null\<close>, and refuses an update that names one path under \<open>$set\<close> and under
  \<open>$inc\<close>.
\<close>

fun incPath :: "numpath \<Rightarrow> jsnum \<Rightarrow> discount \<Rightarrow> discount option" where
  "incPath PValue a d = Some (d\<lparr>dvalue := js_add (dvalue d) a\<rparr>)"
| "incPath PMinOrder a d = Some (d\<lparr>minOrder := js_add (minOrder d) a\<rparr>)"
| "incPath PMaxDiscount a d = Some (d\<lparr>maxDiscount := js_add (maxDiscount d) a\<rparr>)"
| "incPath PUsageLimit a d =
     (case usageLimit d of
        None \<Rightarrow> None
      | Some l \<Rightarrow> Some (d\<lparr>usageLimit := Some (js_add l a)\<rparr>))"
| "incPath PUsedCount a d = Some (d\<lparr>usedCount := js_add (usedCount d) a\<rparr>)"
| "incPath PRemainingUses a d =
     (case remainingUses d of
        None \<Rightarrow> None
      | Some r \<Rightarrow> Some (d\<lparr>remainingUses := Some (js_add r a)\<rparr>))"
| "incPath PRevenueGenerated a d =
     Some (d\<lparr>revenueGenerated := js_add (revenueGenerated d) a\<rparr>)"
| "incPath POrdersUsed a d = Some (d\<lparr>ordersUsed := js_add (ordersUsed d) a\<rparr>)"

fun applyIncs :: "(numpath \<times> jsnum) list \<Rightarrow> discount \<Rightarrow> discount option" where
  "applyIncs [] d = Some d"
| "applyIncs ((p, a) # rest) d =
     (case incPath p a d of
        None \<Rightarrow> None
      | Some d' \<Rightarrow> applyIncs rest d')"

fun setsPath :: "update_body \<Rightarrow> numpath \<Rightarrow> bool" where
  "setsPath b PValue = given (ub_value b)"
| "setsPath b PMinOrder = given (ub_minOrder b)"
| "setsPath b PMaxDiscount = given (ub_maxDiscount b)"
| "setsPath b PUsageLimit = given (ub_usageLimit b)"
| "setsPath b PUsedCount = present (ub_usedCount b)"
| "setsPath b PRemainingUses = present (ub_remainingUses b)"
| "setsPath b PRevenueGenerated = present (ub_revenueGenerated b)"
| "setsPath b POrdersUsed = present (ub_ordersUsed b)"

text \<open>
  \<open>Discount.findByIdAndUpdate\<close> is a query: it casts and validates the update and
  the server applies it to the stored document. Document middleware, the pre-save hook
  among it, does not run.
\<close>

definition findByIdAndUpdate ::
  "nat \<Rightarrow> update_body \<Rightarrow> store \<Rightarrow> (discount \<times> store) option" where
  "findByIdAndUpdate i b st =
     (if \<not> updateValid b then None
      else if list_ex (\<lambda>(p, a). setsPath b p) (ub_inc b) then None
      else
        (case findById i st of
           None \<Rightarrow> None
         | Some cur \<Rightarrow>
             (case applyIncs (ub_inc b) (applyUpdate b cur) of
                None \<Rightarrow> None
              | Some d' \<Rightarrow>
                  if codeTaken (code d') i st then None
                  else Some (d', replaceById d' st))))"

definition updateDiscount ::
  "int \<Rightarrow> nat \<Rightarrow> nat \<Rightarrow> update_body \<Rightarrow> store \<Rightarrow> response \<times> store" where
  "updateDiscount now user i b st =
     (case findById i st of
        None \<Rightarrow> (Response 404 False (Lit ''Discount not found'') NoData, st)
      | Some discount \<Rightarrow>
          if createdBy discount \<noteq> user
          then (Response 403 False (Lit ''You do not own this discount'') NoData, st)
          else
            (case (if present (ub_startDate b) \<or> present (ub_endDate b)
                   then validateDates now (orKeep (ub_startDate b) (startDate discount))
                          (orKeep (ub_endDate b) (endDate discount))
                   else None) of
               Some dateError \<Rightarrow> (Response 400 False (Lit dateError) NoData, st)
             | None \<Rightarrow>
                 (case findByIdAndUpdate i b st of
                    None \<Rightarrow> (Response 500 False (Lit ''Error updating discount'') ErrorData, st)
                  | Some (updatedDiscount, st') \<Rightarrow>
                      (Response 200 True (Lit ''Discount updated successfully'')
                         (DocData updatedDiscount), st'))))"

section \<open>Sample documents\<close>

text \<open>
  A ten-percent campaign of owner 7, capped at 5, for orders of at least 20, open from
  instant 100 to instant 200 and redeemable once.
\<close>

definition summer :: discount where
  "summer =
     \<lparr>did = 1, name = ''Summer'', code = ''SAVE10'', dtype = Percentage, dvalue = Num 10,
      minOrder = Num 20, maxDiscount = Num 5, startDate = 100, endDate = 200,
      usageLimit = Some (Num 1), usedCount = Num 0, remainingUses = Some (Num 1),
      status = Active, revenueGenerated = Num 0, ordersUsed = Num 0, createdBy = 7\<rparr>"

text \<open>A creation request for the code "save10", and nothing optional.\<close>

definition saleBody :: create_body where
  "saleBody =
     \<lparr>cb_name = ''Sale'', cb_code = ''save10'', cb_type = ''percentage'',
      cb_value = Text (Num 10), cb_minOrder = Absent, cb_maxDiscount = Absent,
      cb_startDate = Some 100, cb_endDate = Some 200, cb_usageLimit = Absent\<rparr>"

section \<open>Properties of the pre-save hook\<close>

lemma or0_Num: "or0 (Num u) = Num u"
  by (simp add: or0_def)

lemma preSave_status:
  "status (preSave now d) =
     (if status d = Paused then Paused
      else if now < startDate d then Upcoming
      else if now > endDate d then Expired
      else Active)"
  by (simp add: preSave_def Let_def split: option.split)

lemma preSave_remaining_None:
  "usageLimit d = None \<Longrightarrow> remainingUses (preSave now d) = None"
  by (simp add: preSave_def Let_def)

lemma preSave_remaining_Some:
  "usageLimit d = Some (Num l) \<Longrightarrow> usedCount d = Num u \<Longrightarrow>
   remainingUses (preSave now d) = Some (Num (max 0 (l - u)))"
  by (simp add: preSave_def Let_def or0_Num)

text \<open>
  Claim C1. On every run of the pre-save hook on a document whose \<open>usedCount\<close> is a
  number: a paused document stays paused, also when the hook runs again after an edit
  of an unrelated field; otherwise the status is upcoming when \<open>now < startDate\<close>,
  else expired when \<open>now > endDate\<close>, else active; and \<open>remainingUses\<close> is
  \<open>max(0, usageLimit - usedCount)\<close> when \<open>usageLimit\<close> is set and \<open>null\<close> when it
  is not. A save hands the document to the hook and writes back the paths that differ
  from the loaded document; a creation stores the document as the hook leaves it.
\<close>

theorem preSave_evaluator:
  assumes "usedCount d = Num u"
  shows "status (preSave now d) =
           (if status d = Paused then Paused
            else if now < startDate d then Upcoming
            else if now > endDate d then Expired
            else Active) \<and>
         (status d = Paused \<longrightarrow>
            status (preSave now' ((preSave now d)\<lparr>name := n\<rparr>)) = Paused) \<and>
         (usageLimit d = None \<longrightarrow> remainingUses (preSave now d) = None) \<and>
         (\<forall>l. usageLimit d = Some (Num l) \<longrightarrow>
            remainingUses (preSave now d) = Some (Num (max 0 (l - u)))) \<and>
         (\<forall>loaded st d' st'. save now loaded d st = Some (d', st') \<longrightarrow>
            d' = preSave now d \<and> st' = writeBack loaded (preSave now d) st) \<and>
         (\<forall>st d' st'. create now d st = Some (d', st') \<longrightarrow>
            d' = preSave now d \<and> st' = st @ [preSave now d])"
proof -
  have hook: "status (preSave now d) =
           (if status d = Paused then Paused
            else if now < startDate d then Upcoming
            else if now > endDate d then Expired
            else Active) \<and>
         (status d = Paused \<longrightarrow>
            status (preSave now' ((preSave now d)\<lparr>name := n\<rparr>)) = Paused) \<and>
         (usageLimit d = None \<longrightarrow> remainingUses (preSave now d) = None) \<and>
         (\<forall>l. usageLimit d = Some (Num l) \<longrightarrow>
            remainingUses (preSave now d) = Some (Num (max 0 (l - u))))"
    using assms
    by (simp add: preSave_status preSave_remaining_None preSave_remaining_Some)
  have saved: "\<forall>loaded st d' st'. save now loaded d st = Some (d', st') \<longrightarrow>
          d' = preSave now d \<and> st' = writeBack loaded (preSave now d) st"
    by (auto simp: save_def Let_def split: if_splits)
  have created: "\<forall>st d' st'. create now d st = Some (d', st') \<longrightarrow>
          d' = preSave now d \<and> st' = st @ [preSave now d]"
    by (auto simp: create_def Let_def split: if_splits)
  from hook saved created show ?thesis by blast
qed

theorem preSave_evaluator_witness:
  "usedCount summer = Num 0 \<and>
   status (preSave 150 summer) = Active \<and>
   status (preSave 50 summer) = Upcoming \<and>
   status (preSave 250 summer) = Expired \<and>
   status (preSave 250 ((preSave 150 (summer\<lparr>status := Paused\<rparr>))\<lparr>name := ''Autumn''\<rparr>)) = Paused \<and>
   remainingUses (preSave 150 (summer\<lparr>usedCount := Num 3\<rparr>)) = Some (Num 0) \<and>
   remainingUses (preSave 150 (summer\<lparr>usageLimit := None\<rparr>)) = None \<and>
   save 250 summer (summer\<lparr>usageLimit := Some (Num 5), usedCount := Num 3\<rparr>) [summer] =
     Some (summer\<lparr>usageLimit := Some (Num 5), usedCount := Num 3,
                   remainingUses := Some (Num 2), status := Expired\<rparr>,
           [summer\<lparr>usageLimit := Some (Num 5), usedCount := Num 3,
                    remainingUses := Some (Num 2), status := Expired\<rparr>])"
  using preSave_evaluator [where d = summer and u = 0 and now = 150]
    preSave_evaluator [where d = summer and u = 0 and now = 50]
    preSave_evaluator [where d = summer and u = 0 and now = 250]
    preSave_evaluator [where d = "summer\<lparr>status := Paused\<rparr>" and u = 0 and now = 150
      and now' = 250 and n = "''Autumn''"]
    preSave_evaluator [where d = "summer\<lparr>usedCount := Num 3\<rparr>" and u = 3 and now = 150]
    preSave_evaluator [where d = "summer\<lparr>usageLimit := None\<rparr>" and u = 0 and now = 150]
    preSave_evaluator [where d = "summer\<lparr>usageLimit := Some (Num 5), usedCount := Num 3\<rparr>"
      and u = 3 and now = 250]
  by (simp add: summer_def save_def saveValid_def pathOk_def preSave_def or0_def
        findById_def writeBack_def writeModified_def pick_def Let_def)

section \<open>Properties of validateDiscountCode\<close>

lemma limitReached_schemaValid:
  "schemaValid d \<Longrightarrow> limitReached d = limit_exhausted d"
  by (cases "usageLimit d"; cases "the (usageLimit d)")
     (auto simp: schemaValid_def limitReached_def limit_exhausted_def)

text \<open>
  Claim C3. When a discount passes every check and the order amount is supplied and
  reads as the number \<open>a\<close>: a percentage discount grants \<open>a * value / 100\<close>, cut down
  to \<open>maxDiscount\<close> when \<open>maxDiscount > 0\<close>; a fixed discount grants \<open>value\<close>
  unclamped; the final amount is \<open>max(0, a - discountAmount)\<close> and so never negative.
\<close>

theorem validate_amounts:
  assumes "c \<noteq> []"
    and "findOne (toUpperCase c) user st = Some d"
    and "\<not> now < startDate d" and "\<not> now > endDate d" and "status d = Active"
    and "\<not> limitReached d"
    and "truthy_param q" and "parseFloat q = Num a"
    and "dvalue d = Num v" and "maxDiscount d = Num m" and "minOrder d = Num mo"
    and "\<not> (mo > 0 \<and> a < mo)"
  shows "(let discountAmount =
                (if dtype d = Percentage
                 then (if m > 0 then min (a * v / 100) m else a * v / 100)
                 else v);
              finalAmount = max 0 (a - discountAmount)
          in fst (validateDiscountCode now user c q st) =
               Response 200 True (Lit ''Discount code is valid'')
                 (ValidData d (Num discountAmount) (Num finalAmount)) \<and>
             0 \<le> finalAmount)"
  using assms
  by (auto simp: validateDiscountCode_def Let_def min_def)

theorem validate_amounts_witness:
  "''save10'' \<noteq> [] \<and>
   findOne (toUpperCase ''save10'') 7 [summer] = Some summer \<and>
   \<not> 150 < startDate summer \<and> \<not> 150 > endDate summer \<and> status summer = Active \<and>
   \<not> limitReached summer \<and> truthy_param (Text (Num 100)) \<and>
   parseFloat (Text (Num 100)) = Num 100 \<and>
   dvalue summer = Num 10 \<and> maxDiscount summer = Num 5 \<and> minOrder summer = Num 20 \<and>
   \<not> ((20::real) > 0 \<and> (100::real) < 20) \<and>
   fst (validateDiscountCode 150 7 ''save10'' (Text (Num 100)) [summer]) =
     Response 200 True (Lit ''Discount code is valid'') (ValidData summer (Num 5) (Num 95)) \<and>
   fst (validateDiscountCode 150 7 ''save10'' (Text (Num 15))
          [summer\<lparr>dtype := Fixed, dvalue := Num 20, minOrder := Num 0\<rparr>]) =
     Response 200 True (Lit ''Discount code is valid'')
       (ValidData (summer\<lparr>dtype := Fixed, dvalue := Num 20, minOrder := Num 0\<rparr>)
          (Num 20) (Num 0))"
  using validate_amounts [where c = "''save10''" and user = 7 and st = "[summer]"
      and d = summer and now = 150 and q = "Text (Num 100)" and a = 100 and v = 10
      and m = 5 and mo = 20]
    validate_amounts [where c = "''save10''" and user = 7
      and st = "[summer\<lparr>dtype := Fixed, dvalue := Num 20, minOrder := Num 0\<rparr>]"
      and d = "summer\<lparr>dtype := Fixed, dvalue := Num 20, minOrder := Num 0\<rparr>"
      and now = 150 and q = "Text (Num 15)" and a = 15 and v = 20 and m = 5 and mo = 0]
  by (simp add: summer_def findOne_def castCode_def trim_def isSpace_def toUpperCase_def
        upper_char_def limitReached_def Let_def)

text \<open>
  Claim C4. The checks of \<open>validateDiscountCode\<close> run in a fixed order and the first
  failure answers. (1) The lookup is by the caller as owner and by the code of the
  request, upper-cased by the handler and then cast by the setters of the path, which
  trim it and upper-case it again; when no stored discount matches, the answer is not
  found. (2) \<open>now < startDate\<close>: not active yet, with \<open>startDate\<close>. (3)
  \<open>now > endDate\<close>: expired, with \<open>endDate\<close>. (4) A status other than active:
  inactive. (5) \<open>usageLimit\<close> set and \<open>usedCount >= usageLimit\<close>: limit reached.
  (6) \<open>minOrder > 0\<close> and the supplied order amount below it: below the minimum, with
  \<open>minOrder\<close>. The route parameter is not empty and the stored document passes the
  schema validators.
\<close>

theorem validate_check_order:
  assumes "c \<noteq> []"
  shows "findOne (toUpperCase c) user st =
           find (\<lambda>d. code d = toUpperCase (trim (toUpperCase c)) \<and> createdBy d = user) st \<and>
         (find (\<lambda>d. code d = toUpperCase (trim (toUpperCase c)) \<and> createdBy d = user) st =
            None \<longrightarrow>
            fst (validateDiscountCode now user c q st) =
              Response 404 False (Lit ''Discount code not found'') NoData) \<and>
         (\<forall>d. find (\<lambda>d. code d = toUpperCase (trim (toUpperCase c)) \<and> createdBy d = user) st =
                 Some d \<and> schemaValid d \<longrightarrow>
            (now < startDate d \<longrightarrow>
               fst (validateDiscountCode now user c q st) =
                 Response 400 False (Lit ''Discount is not active yet'')
                   (StartDateData (startDate d))) \<and>
            (\<not> now < startDate d \<and> now > endDate d \<longrightarrow>
               fst (validateDiscountCode now user c q st) =
                 Response 400 False (Lit ''Discount has expired'')
                   (EndDateData (endDate d))) \<and>
            (\<not> now < startDate d \<and> \<not> now > endDate d \<and> status d \<noteq> Active \<longrightarrow>
               fst (validateDiscountCode now user c q st) =
                 Response 400 False (Lit ''Discount is not active'') NoData) \<and>
            (\<not> now < startDate d \<and> \<not> now > endDate d \<and> status d = Active \<and>
             limit_exhausted d \<longrightarrow>
               fst (validateDiscountCode now user c q st) =
                 Response 400 False (Lit ''Discount usage limit reached'') NoData) \<and>
            (\<forall>a. \<not> now < startDate d \<and> \<not> now > endDate d \<and> status d = Active \<and>
               \<not> limit_exhausted d \<and> truthy_param q \<and> parseFloat q = Num a \<and>
               js_gt (minOrder d) (Num 0) \<and> js_lt (Num a) (minOrder d) \<longrightarrow>
               fst (validateDiscountCode now user c q st) =
                 Response 400 False (MinimumOrderAmountIs (minOrder d))
                   (MinOrderData (minOrder d))))"
proof -
  have key: "findOne (toUpperCase c) user st =
           find (\<lambda>d. code d = toUpperCase (trim (toUpperCase c)) \<and> createdBy d = user) st"
    by (simp add: findOne_def castCode_def)
  show ?thesis
    unfolding key [symmetric]
    using assms
    by (auto simp: validateDiscountCode_def limitReached_schemaValid)
qed

theorem validate_check_order_witness:
  "''other'' \<noteq> [] \<and> ''save10 '' \<noteq> [] \<and>
   find (\<lambda>d. code d = toUpperCase (trim (toUpperCase ''other'')) \<and> createdBy d = 7)
     [summer] = None \<and>
   find (\<lambda>d. code d = toUpperCase (trim (toUpperCase ''save10 '')) \<and> createdBy d = 7)
     [summer] = Some summer \<and>
   find (\<lambda>d. code d = toUpperCase (trim (toUpperCase ''save10'')) \<and> createdBy d = 8)
     [summer] = None \<and>
   schemaValid summer \<and>
   schemaValid (summer\<lparr>status := Paused\<rparr>) \<and>
   schemaValid (summer\<lparr>usedCount := Num 1\<rparr>) \<and>
   limit_exhausted (summer\<lparr>usedCount := Num 1\<rparr>) \<and> \<not> limit_exhausted summer \<and>
   fst (validateDiscountCode 150 7 ''other'' (Text (Num 100)) [summer]) =
     Response 404 False (Lit ''Discount code not found'') NoData \<and>
   fst (validateDiscountCode 150 8 ''save10'' (Text (Num 100)) [summer]) =
     Response 404 False (Lit ''Discount code not found'') NoData \<and>
   fst (validateDiscountCode 50 7 ''save10 '' (Text (Num 100)) [summer]) =
     Response 400 False (Lit ''Discount is not active yet'') (StartDateData 100) \<and>
   fst (validateDiscountCode 250 7 ''save10'' (Text (Num 100)) [summer]) =
     Response 400 False (Lit ''Discount has expired'') (EndDateData 200) \<and>
   fst (validateDiscountCode 150 7 ''save10'' (Text (Num 100))
          [summer\<lparr>status := Paused\<rparr>]) =
     Response 400 False (Lit ''Discount is not active'') NoData \<and>
   fst (validateDiscountCode 150 7 ''save10'' (Text (Num 100))
          [summer\<lparr>usedCount := Num 1\<rparr>]) =
     Response 400 False (Lit ''Discount usage limit reached'') NoData \<and>
   fst (validateDiscountCode 150 7 ''save10'' (Text (Num 15)) [summer]) =
     Response 400 False (MinimumOrderAmountIs (Num 20)) (MinOrderData (Num 20))"
  using validate_check_order [where c = "''other''" and user = 7 and st = "[summer]"
      and now = 150 and q = "Text (Num 100)"]
    validate_check_order [where c = "''save10''" and user = 8 and st = "[summer]"
      and now = 150 and q = "Text (Num 100)"]
    validate_check_order [where c = "''save10 ''" and user = 7 and st = "[summer]"
      and now = 50 and q = "Text (Num 100)"]
    validate_check_order [where c = "''save10''" and user = 7 and st = "[summer]"
      and now = 250 and q = "Text (Num 100)"]
    validate_check_order [where c = "''save10''" and user = 7
      and st = "[summer\<lparr>status := Paused\<rparr>]" and now = 150 and q = "Text (Num 100)"]
    validate_check_order [where c = "''save10''" and user = 7
      and st = "[summer\<lparr>usedCount := Num 1\<rparr>]" and now = 150 and q = "Text (Num 100)"]
    validate_check_order [where c = "''save10''" and user = 7 and st = "[summer]"
      and now = 150 and q = "Text (Num 15)"]
  by (simp add: summer_def trim_def isSpace_def toUpperCase_def upper_char_def
        schemaValid_def limit_exhausted_def)

text \<open>
  Claim C10. Without an order amount (absent or empty query parameter), a discount of
  either type that passes the temporal, status and limit checks is answered with
  success: the minimum-order check does not run, whatever \<open>minOrder\<close> is. For a
  percentage discount \<open>discountAmount\<close> and \<open>finalAmount\<close> are both \<open>NaN\<close>; for a
  fixed discount \<open>discountAmount\<close> is its value and \<open>finalAmount\<close> is \<open>NaN\<close>.
\<close>

theorem validate_without_amount:
  assumes "c \<noteq> []"
    and "findOne (toUpperCase c) user st = Some d"
    and "\<not> now < startDate d" and "\<not> now > endDate d" and "status d = Active"
    and "\<not> limitReached d"
    and "q = Absent \<or> q = EmptyStr"
  shows "fst (validateDiscountCode now user c q st) =
           Response 200 True (Lit ''Discount code is valid'')
             (ValidData d (if dtype d = Percentage then NaN else dvalue d) NaN)"
  using assms
  by (cases "dvalue d") (auto simp: validateDiscountCode_def Let_def)

theorem validate_without_amount_witness:
  "''save10'' \<noteq> [] \<and>
   findOne (toUpperCase ''save10'') 7 [summer] = Some summer \<and>
   findOne (toUpperCase ''save10'') 7 [summer\<lparr>dtype := Fixed\<rparr>] =
     Some (summer\<lparr>dtype := Fixed\<rparr>) \<and>
   \<not> 150 < startDate summer \<and> \<not> 150 > endDate summer \<and> status summer = Active \<and>
   \<not> limitReached summer \<and> dtype summer = Percentage \<and>
   js_gt (minOrder summer) (Num 0) \<and>
   fst (validateDiscountCode 150 7 ''save10'' Absent [summer]) =
     Response 200 True (Lit ''Discount code is valid'') (ValidData summer NaN NaN) \<and>
   fst (validateDiscountCode 150 7 ''save10'' EmptyStr [summer]) =
     Response 200 True (Lit ''Discount code is valid'') (ValidData summer NaN NaN) \<and>
   fst (validateDiscountCode 150 7 ''save10'' Absent [summer\<lparr>dtype := Fixed\<rparr>]) =
     Response 200 True (Lit ''Discount code is valid'')
       (ValidData (summer\<lparr>dtype := Fixed\<rparr>) (Num 10) NaN) \<and>
   fst (validateDiscountCode 150 7 ''save10'' EmptyStr [summer\<lparr>dtype := Fixed\<rparr>]) =
     Response 200 True (Lit ''Discount code is valid'')
       (ValidData (summer\<lparr>dtype := Fixed\<rparr>) (Num 10) NaN)"
  using validate_without_amount [where c = "''save10''" and user = 7 and st = "[summer]"
      and d = summer and now = 150 and q = Absent]
    validate_without_amount [where c = "''save10''" and user = 7 and st = "[summer]"
      and d = summer and now = 150 and q = EmptyStr]
    validate_without_amount [where c = "''save10''" and user = 7
      and st = "[summer\<lparr>dtype := Fixed\<rparr>]" and d = "summer\<lparr>dtype := Fixed\<rparr>"
      and now = 150 and q = Absent]
    validate_without_amount [where c = "''save10''" and user = 7
      and st = "[summer\<lparr>dtype := Fixed\<rparr>]" and d = "summer\<lparr>dtype := Fixed\<rparr>"
      and now = 150 and q = EmptyStr]
  by (simp add: summer_def findOne_def castCode_def trim_def isSpace_def toUpperCase_def
        upper_char_def limitReached_def)

section \<open>Properties of updateDiscountUsage\<close>

lemma preSave_frame:
  "did (preSave now d) = did d" "code (preSave now d) = code d"
  "usedCount (preSave now d) = usedCount d" "ordersUsed (preSave now d) = ordersUsed d"
  "revenueGenerated (preSave now d) = revenueGenerated d"
  "createdBy (preSave now d) = createdBy d" "usageLimit (preSave now d) = usageLimit d"
  "startDate (preSave now d) = startDate d" "endDate (preSave now d) = endDate d"
  by (simp_all add: preSave_def Let_def split: option.split)

text \<open>
  Written back over the very document that was loaded, the held document is what is
  stored: this is a handler that saves what it has just loaded.
\<close>

lemma writeModified_same:
  "did held = did loaded \<Longrightarrow> writeModified loaded held loaded = held"
  by (rule discount.equality) (simp_all add: writeModified_def pick_def)

lemma findById_writeBack:
  "findById (did loaded) st = Some loaded \<Longrightarrow> did held = did loaded \<Longrightarrow>
   findById (did loaded) (writeBack loaded held st) = Some held"
proof (induction st)
  case Nil
  then show ?case by (simp add: findById_def)
next
  case (Cons e st)
  show ?case
  proof (cases "did e = did loaded")
    case True
    with Cons.prems(1) have "e = loaded" by (simp add: findById_def)
    with Cons.prems(2) show ?thesis
      by (simp add: findById_def writeBack_def writeModified_same)
  next
    case False
    with Cons show ?thesis by (simp add: findById_def writeBack_def)
  qed
qed

lemma findById_did: "findById i st = Some d \<Longrightarrow> did d = i"
  by (auto simp: findById_def dest: find_Some_iff[THEN iffD1])

lemma save_Some:
  "save now loaded d st = Some (d', st') \<Longrightarrow>
   d' = preSave now d \<and> st' = writeBack loaded (preSave now d) st"
  by (auto simp: save_def Let_def split: if_splits)

lemma save_succeeds:
  "saveValid loaded d \<Longrightarrow> findById (did loaded) st \<noteq> None \<Longrightarrow>
   save now loaded d st = Some (preSave now d, writeBack loaded (preSave now d) st)"
  by (simp add: save_def Let_def)

text \<open>
  A path the handler did not touch keeps what the store holds when the save arrives:
  a name changed between the load and the save survives the save.
\<close>

lemma save_keeps_other_paths:
  "save 151 summer (summer\<lparr>usedCount := Num 1\<rparr>) [summer\<lparr>name := ''Autumn''\<rparr>] =
     Some (summer\<lparr>usedCount := Num 1, remainingUses := Some (Num 0)\<rparr>,
           [summer\<lparr>name := ''Autumn'', usedCount := Num 1, remainingUses := Some (Num 0)\<rparr>])"
  by (simp add: summer_def save_def saveValid_def pathOk_def preSave_def or0_def
        findById_def writeBack_def writeModified_def pick_def Let_def)

lemma saveValid_counters:
  assumes "schemaValid d" and "minOk 0 (js_add (revenueGenerated d) a)"
  shows "saveValid d (d\<lparr>usedCount := js_add (usedCount d) (Num 1),
                        ordersUsed := js_add (ordersUsed d) (Num 1),
                        revenueGenerated := js_add (revenueGenerated d) a\<rparr>)"
  using assms
  by (cases "usedCount d"; cases "ordersUsed d")
     (auto simp: schemaValid_def saveValid_def pathOk_def)

lemma usage_of_loaded:
  "orderId \<noteq> [] \<Longrightarrow> truthy_param amt \<Longrightarrow> findById i st = Some d \<Longrightarrow>
   updateDiscountUsage now now' i orderId amt st = usageCommit now now' amt d st"
  by (simp add: updateDiscountUsage_def usageLoad_def)

text \<open>What a successful call has stored.\<close>

lemma usage_stored:
  assumes "findById i st = Some d"
    and "succeeded (fst (updateDiscountUsage now now' i orderId amt st))"
  shows "findById i (snd (updateDiscountUsage now now' i orderId amt st)) =
           Some (preSave now'
                   (d\<lparr>usedCount := js_add (usedCount d) (Num 1),
                      ordersUsed := js_add (ordersUsed d) (Num 1),
                      revenueGenerated := js_add (revenueGenerated d) (parseFloat amt)\<rparr>))"
proof -
  let ?U = "updateDiscountUsage now now' i orderId amt st"
  let ?d1 = "d\<lparr>usedCount := js_add (usedCount d) (Num 1),
                ordersUsed := js_add (ordersUsed d) (Num 1),
                revenueGenerated := js_add (revenueGenerated d) (parseFloat amt)\<rparr>"
  have did: "did d = i" using assms(1) by (rule findById_did)
  from assms have U: "?U = usageCommit now now' amt d st"
    by (auto simp: updateDiscountUsage_def usageLoad_def split: if_splits)
  from assms(2) obtain saved st' where sv: "save now' d ?d1 st = Some (saved, st')"
    and st': "snd ?U = st'"
    by (auto simp: U usageCommit_def split: option.splits if_splits)
  from save_Some[OF sv] have e: "st' = writeBack d (preSave now' ?d1) st" by simp
  have "findById (did d) (writeBack d (preSave now' ?d1) st) = Some (preSave now' ?d1)"
    by (rule findById_writeBack) (simp_all add: preSave_frame did assms(1))
  then show ?thesis by (simp add: st' e did)
qed

text \<open>
  Claim C6, as the code has it. For a request with an order id and an order amount and
  a stored, schema-valid discount: the handler rejects exactly when step 2, 3, 4 or 5 of
  the validation would, but a failure of step 2, 3 or 4 is answered by the one message
  "Discount is not active", with no boundary value; a reached limit is answered as the
  validation answers it; every answer that is not a success leaves the collection
  unchanged; a success has added 1 to \<open>usedCount\<close>, 1 to \<open>ordersUsed\<close> and the order
  amount to \<open>revenueGenerated\<close>; and the handler succeeds when the checks pass and the
  new revenue is a non-negative number (a save that fails validation is answered with
  status 500 and writes nothing).
\<close>

theorem usage_ledger:
  assumes "orderId \<noteq> []" and "truthy_param amt"
    and "findById i st = Some d" and "schemaValid d"
  shows "(now < startDate d \<or> now > endDate d \<or> status d \<noteq> Active \<longrightarrow>
            updateDiscountUsage now now' i orderId amt st =
              (Response 400 False (Lit ''Discount is not active'') NoData, st)) \<and>
         (\<not> now < startDate d \<and> \<not> now > endDate d \<and> status d = Active \<and>
          limit_exhausted d \<longrightarrow>
            updateDiscountUsage now now' i orderId amt st =
              (Response 400 False (Lit ''Discount usage limit reached'') NoData, st)) \<and>
         (\<forall>user c q. c \<noteq> [] \<and> findOne (toUpperCase c) user st = Some d \<and>
            \<not> now < startDate d \<and> \<not> now > endDate d \<and> status d = Active \<and>
            limit_exhausted d \<longrightarrow>
            validateDiscountCode now user c q st =
              updateDiscountUsage now now' i orderId amt st) \<and>
         (\<not> succeeded (fst (updateDiscountUsage now now' i orderId amt st)) \<longrightarrow>
            snd (updateDiscountUsage now now' i orderId amt st) = st) \<and>
         (succeeded (fst (updateDiscountUsage now now' i orderId amt st)) \<longrightarrow>
            \<not> now < startDate d \<and> \<not> now > endDate d \<and> status d = Active \<and>
            \<not> limit_exhausted d \<and>
            (\<exists>d'. findById i (snd (updateDiscountUsage now now' i orderId amt st)) = Some d' \<and>
               usedCount d' = js_add (usedCount d) (Num 1) \<and>
               ordersUsed d' = js_add (ordersUsed d) (Num 1) \<and>
               revenueGenerated d' = js_add (revenueGenerated d) (parseFloat amt))) \<and>
         (\<not> now < startDate d \<and> \<not> now > endDate d \<and> status d = Active \<and>
          \<not> limit_exhausted d \<and> minOk 0 (js_add (revenueGenerated d) (parseFloat amt)) \<longrightarrow>
            succeeded (fst (updateDiscountUsage now now' i orderId amt st)))"
proof -
  let ?U = "updateDiscountUsage now now' i orderId amt st"
  let ?d1 = "d\<lparr>usedCount := js_add (usedCount d) (Num 1),
                ordersUsed := js_add (ordersUsed d) (Num 1),
                revenueGenerated := js_add (revenueGenerated d) (parseFloat amt)\<rparr>"
  have U: "?U = usageCommit now now' amt d st"
    using assms(1-3) by (rule usage_of_loaded)
  have lim: "limitReached d = limit_exhausted d"
    using assms(4) by (rule limitReached_schemaValid)
  have did: "did d = i" using assms(3) by (rule findById_did)
  have c1: "now < startDate d \<or> now > endDate d \<or> status d \<noteq> Active \<longrightarrow>
            ?U = (Response 400 False (Lit ''Discount is not active'') NoData, st)"
    by (auto simp: U usageCommit_def)
  have c2: "\<not> now < startDate d \<and> \<not> now > endDate d \<and> status d = Active \<and>
          limit_exhausted d \<longrightarrow>
            ?U = (Response 400 False (Lit ''Discount usage limit reached'') NoData, st)"
    by (auto simp: U usageCommit_def lim)
  have c3: "\<forall>user c q. c \<noteq> [] \<and> findOne (toUpperCase c) user st = Some d \<and>
            \<not> now < startDate d \<and> \<not> now > endDate d \<and> status d = Active \<and>
            limit_exhausted d \<longrightarrow>
            validateDiscountCode now user c q st = ?U"
    using c2 by (auto simp: validateDiscountCode_def lim)
  have c4: "\<not> succeeded (fst ?U) \<longrightarrow> snd ?U = st"
    by (auto simp: U usageCommit_def split: option.split)
  have c5: "succeeded (fst ?U) \<longrightarrow>
            \<not> now < startDate d \<and> \<not> now > endDate d \<and> status d = Active \<and>
            \<not> limit_exhausted d \<and>
            (\<exists>d'. findById i (snd ?U) = Some d' \<and>
               usedCount d' = js_add (usedCount d) (Num 1) \<and>
               ordersUsed d' = js_add (ordersUsed d) (Num 1) \<and>
               revenueGenerated d' = js_add (revenueGenerated d) (parseFloat amt))"
  proof
    assume s: "succeeded (fst ?U)"
    then have pass: "\<not> now < startDate d \<and> \<not> now > endDate d \<and> status d = Active \<and>
            \<not> limit_exhausted d"
      using c1 c2 by auto
    have "findById i (snd ?U) = Some (preSave now' ?d1)"
      using assms(3) s by (rule usage_stored)
    then have "\<exists>d'. findById i (snd ?U) = Some d' \<and>
               usedCount d' = js_add (usedCount d) (Num 1) \<and>
               ordersUsed d' = js_add (ordersUsed d) (Num 1) \<and>
               revenueGenerated d' = js_add (revenueGenerated d) (parseFloat amt)"
      by (simp add: preSave_frame)
    with pass show "\<not> now < startDate d \<and> \<not> now > endDate d \<and> status d = Active \<and>
            \<not> limit_exhausted d \<and>
            (\<exists>d'. findById i (snd ?U) = Some d' \<and>
               usedCount d' = js_add (usedCount d) (Num 1) \<and>
               ordersUsed d' = js_add (ordersUsed d) (Num 1) \<and>
               revenueGenerated d' = js_add (revenueGenerated d) (parseFloat amt))"
      by simp
  qed
  have c6: "\<not> now < startDate d \<and> \<not> now > endDate d \<and> status d = Active \<and>
          \<not> limit_exhausted d \<and> minOk 0 (js_add (revenueGenerated d) (parseFloat amt)) \<longrightarrow>
          succeeded (fst ?U)"
  proof
    assume a: "\<not> now < startDate d \<and> \<not> now > endDate d \<and> status d = Active \<and>
          \<not> limit_exhausted d \<and> minOk 0 (js_add (revenueGenerated d) (parseFloat amt))"
    have v: "saveValid d ?d1"
      using assms(4) a by (simp add: saveValid_counters)
    have "save now' d ?d1 st = Some (preSave now' ?d1, writeBack d (preSave now' ?d1) st)"
      by (rule save_succeeds[OF v]) (use did assms(3) in simp_all)
    then show "succeeded (fst ?U)"
      using a by (simp add: U usageCommit_def lim)
  qed
  from c1 c2 c3 c4 c5 c6 show ?thesis by blast
qed

theorem usage_ledger_witness:
  "''order1'' \<noteq> [] \<and> truthy_param (NumLit 100) \<and>
   findById 1 [summer] = Some summer \<and> schemaValid summer \<and>
   updateDiscountUsage 150 151 1 ''order1'' (NumLit 100) [summer] =
     (Response 200 True (Lit ''Discount usage updated'')
        (UsageData 1 ''SAVE10'' (Num 1) (Some (Num 0)) (Num 100)),
      [summer\<lparr>usedCount := Num 1, ordersUsed := Num 1, revenueGenerated := Num 100,
               remainingUses := Some (Num 0)\<rparr>]) \<and>
   updateDiscountUsage 250 251 1 ''order1'' (NumLit 100) [summer] =
     (Response 400 False (Lit ''Discount is not active'') NoData, [summer]) \<and>
   updateDiscountUsage 150 151 1 ''order1'' (NumLit 100) [summer\<lparr>usedCount := Num 1\<rparr>] =
     (Response 400 False (Lit ''Discount usage limit reached'') NoData,
      [summer\<lparr>usedCount := Num 1\<rparr>])"
  using usage_ledger [where orderId = "''order1''" and amt = "NumLit 100" and i = 1
      and st = "[summer]" and d = summer and now = 150 and now' = 151]
    usage_ledger [where orderId = "''order1''" and amt = "NumLit 100" and i = 1
      and st = "[summer]" and d = summer and now = 250 and now' = 251]
    usage_ledger [where orderId = "''order1''" and amt = "NumLit 100" and i = 1
      and st = "[summer\<lparr>usedCount := Num 1\<rparr>]" and d = "summer\<lparr>usedCount := Num 1\<rparr>"
      and now = 150 and now' = 151]
  by (simp add: summer_def updateDiscountUsage_def usageLoad_def usageCommit_def
        findById_def limitReached_def save_def saveValid_def pathOk_def schemaValid_def
        preSave_def or0_def writeBack_def writeModified_def pick_def Let_def)

text \<open>
  Claim C6 as the spec states it fails: before its start date a discount is refused
  by the validation with "Discount is not active yet" and the start date, and by the
  usage handler with "Discount is not active" and no data.
\<close>

theorem usage_rejects_differently:
  "fst (validateDiscountCode 50 7 ''save10'' (Text (Num 100)) [summer]) =
     Response 400 False (Lit ''Discount is not active yet'') (StartDateData 100) \<and>
   fst (updateDiscountUsage 50 51 1 ''order1'' (NumLit 100) [summer]) =
     Response 400 False (Lit ''Discount is not active'') NoData \<and>
   fst (validateDiscountCode 50 7 ''save10'' (Text (Num 100)) [summer]) \<noteq>
   fst (updateDiscountUsage 50 51 1 ''order1'' (NumLit 100) [summer])"
  by (simp add: summer_def validateDiscountCode_def findOne_def castCode_def trim_def
        isSpace_def toUpperCase_def upper_char_def updateDiscountUsage_def usageLoad_def
        usageCommit_def findById_def)

section \<open>Calls of updateDiscountUsage in sequence and overlapping\<close>

lemma usage_success:
  assumes "orderId \<noteq> []" and "truthy_param amt"
    and "findById i st = Some d" and "schemaValid d"
    and "\<not> now < startDate d" and "\<not> now > endDate d" and "status d = Active"
    and "\<not> limitReached d"
    and "minOk 0 (js_add (revenueGenerated d) (parseFloat amt))"
    and "d1 = d\<lparr>usedCount := js_add (usedCount d) (Num 1),
                 ordersUsed := js_add (ordersUsed d) (Num 1),
                 revenueGenerated := js_add (revenueGenerated d) (parseFloat amt)\<rparr>"
  shows "updateDiscountUsage now now' i orderId amt st =
           (Response 200 True (Lit ''Discount usage updated'')
              (UsageData i (code d) (usedCount d1) (remainingUses (preSave now' d1))
                 (revenueGenerated d1)),
            writeBack d (preSave now' d1) st)"
proof -
  have did: "did d = i" using assms(3) by (rule findById_did)
  have v: "saveValid d d1"
    using assms(4,9) unfolding assms(10) by (rule saveValid_counters)
  have "save now' d d1 st = Some (preSave now' d1, writeBack d (preSave now' d1) st)"
    by (rule save_succeeds[OF v]) (use assms did in simp_all)
  then show ?thesis
    using assms did
    by (simp add: usage_of_loaded[OF assms(1-3)] usageCommit_def preSave_frame)
qed

lemma recordAll_exhausted:
  assumes "findById i st = Some d" and "status d = Active" and "limitReached d"
    and "list_all (requestOk d) reqs"
  shows "recordAll i reqs st =
           (replicate (length reqs)
              (Response 400 False (Lit ''Discount usage limit reached'') NoData), st)"
  using assms(4)
proof (induction reqs)
  case Nil
  then show ?case by simp
next
  case (Cons rq reqs)
  obtain now now' orderId amt where rq: "rq = (now, now', orderId, amt)"
    by (cases rq) auto
  from Cons.prems rq have ok: "orderId \<noteq> []" "truthy_param amt"
    "\<not> now < startDate d" "\<not> now > endDate d"
    by auto
  have "updateDiscountUsage now now' i orderId amt st =
          (Response 400 False (Lit ''Discount usage limit reached'') NoData, st)"
    using ok assms(2,3)
    by (simp add: usage_of_loaded[OF ok(1,2) assms(1)] usageCommit_def)
  moreover have "recordAll i reqs st =
           (replicate (length reqs)
              (Response 400 False (Lit ''Discount usage limit reached'') NoData), st)"
    using Cons by simp
  ultimately show ?case by (simp add: rq)
qed

text \<open>
  Claim C9, as the code has it. When the calls run one after the other, each to its
  end, against a fresh discount with \<open>usageLimit = 1\<close> (active, inside its window,
  well-formed requests), the first call succeeds, every later call is refused with
  "Discount usage limit reached", and \<open>usedCount\<close> ends at 1.
\<close>

theorem sequential_single_use:
  assumes "findById i st = Some d" and "schemaValid d"
    and "usageLimit d = Some (Num 1)" and "usedCount d = Num 0" and "status d = Active"
    and "list_all (requestOk d) (rq # reqs)"
  shows "\<exists>r1 d' st'.
           recordAll i (rq # reqs) st =
             (r1 # replicate (length reqs)
                     (Response 400 False (Lit ''Discount usage limit reached'') NoData), st') \<and>
           succeeded r1 \<and> findById i st' = Some d' \<and> usedCount d' = Num 1"
proof -
  obtain now now' orderId amt where rq: "rq = (now, now', orderId, amt)"
    by (cases rq) auto
  from assms(6) rq have ok: "orderId \<noteq> []" "truthy_param amt"
    "minOk 0 (parseFloat amt)" "\<not> now < startDate d" "\<not> now > endDate d"
    "\<not> now' < startDate d" "\<not> now' > endDate d"
    and rest: "list_all (requestOk d) reqs"
    by auto
  define d1 where "d1 = d\<lparr>usedCount := js_add (usedCount d) (Num 1),
                 ordersUsed := js_add (ordersUsed d) (Num 1),
                 revenueGenerated := js_add (revenueGenerated d) (parseFloat amt)\<rparr>"
  define D where "D = preSave now' d1"
  define r1 where "r1 = Response 200 True (Lit ''Discount usage updated'')
              (UsageData i (code d) (usedCount d1) (remainingUses D) (revenueGenerated d1))"
  have did: "did d = i" using assms(1) by (rule findById_did)
  have nolim: "\<not> limitReached d"
    using assms(3,4) by (simp add: limitReached_def)
  have rev: "minOk 0 (js_add (revenueGenerated d) (parseFloat amt))"
    using assms(2) ok(3)
    by (cases "revenueGenerated d"; cases "parseFloat amt") (auto simp: schemaValid_def)
  have first: "updateDiscountUsage now now' i orderId amt st = (r1, writeBack d D st)"
    unfolding r1_def D_def
    by (rule usage_success[OF ok(1,2) assms(1,2) ok(4,5) assms(5) nolim rev d1_def])
  have didD: "did D = did d" by (simp add: D_def d1_def preSave_frame)
  have found: "findById i (writeBack d D st) = Some D"
    using findById_writeBack[of d st D] assms(1) didD did by simp
  have stD: "status D = Active"
    using ok(6,7) assms(5) by (simp add: D_def preSave_status d1_def)
  have usedD: "usedCount D = Num 1"
    using assms(4) by (simp add: D_def d1_def preSave_frame)
  have limD: "limitReached D"
    using assms(3,4) by (simp add: limitReached_def D_def d1_def preSave_frame)
  have win: "list_all (requestOk D) reqs"
    using rest by (auto simp: list_all_iff D_def d1_def preSave_frame)
  have "recordAll i reqs (writeBack d D st) =
          (replicate (length reqs)
             (Response 400 False (Lit ''Discount usage limit reached'') NoData),
           writeBack d D st)"
    by (rule recordAll_exhausted[OF found stD limD win])
  then have "recordAll i (rq # reqs) st =
          (r1 # replicate (length reqs)
             (Response 400 False (Lit ''Discount usage limit reached'') NoData),
           writeBack d D st)"
    by (simp add: rq first)
  moreover have "succeeded r1" by (simp add: r1_def)
  ultimately show ?thesis using found usedD by blast
qed

theorem sequential_single_use_witness:
  "findById 1 [summer] = Some summer \<and> schemaValid summer \<and>
   usageLimit summer = Some (Num 1) \<and> usedCount summer = Num 0 \<and>
   status summer = Active \<and>
   list_all (requestOk summer)
     [(150, 151, ''order1'', NumLit 10), (160, 161, ''order2'', NumLit 10),
      (170, 171, ''order3'', NumLit 10)] \<and>
   recordAll 1
     [(150, 151, ''order1'', NumLit 10), (160, 161, ''order2'', NumLit 10),
      (170, 171, ''order3'', NumLit 10)] [summer] =
     ([Response 200 True (Lit ''Discount usage updated'')
         (UsageData 1 ''SAVE10'' (Num 1) (Some (Num 0)) (Num 10)),
       Response 400 False (Lit ''Discount usage limit reached'') NoData,
       Response 400 False (Lit ''Discount usage limit reached'') NoData],
      [summer\<lparr>usedCount := Num 1, ordersUsed := Num 1, revenueGenerated := Num 10,
               remainingUses := Some (Num 0)\<rparr>])"
  using sequential_single_use [where i = 1 and st = "[summer]" and d = summer
      and rq = "(150, 151, ''order1'', NumLit 10)"
      and reqs = "[(160, 161, ''order2'', NumLit 10), (170, 171, ''order3'', NumLit 10)]"]
  by (simp add: summer_def updateDiscountUsage_def usageLoad_def usageCommit_def
        findById_def limitReached_def save_def saveValid_def pathOk_def schemaValid_def
        preSave_def or0_def writeBack_def writeModified_def pick_def Let_def)

text \<open>
  The two store operations of one call, run back to back, are the handler.
\<close>

lemma steps_are_the_handler:
  "runSchedule i [0, 0] ([((now, now', orderId, amt), Pending)], st) =
     ([((now, now', orderId, amt),
        Finished (fst (updateDiscountUsage now now' i orderId amt st)))],
      snd (updateDiscountUsage now now' i orderId amt st))"
  by (simp add: updateDiscountUsage_def split: sum.split prod.split)

text \<open>
  Claim C9 as the spec states it fails: the limit check and the increment are two
  store operations. When two calls against a fresh discount with \<open>usageLimit = 1\<close>
  both load the document before either saves it, both succeed.
\<close>

theorem overlapping_calls_both_succeed:
  "usageLimit summer = Some (Num 1) \<and> usedCount summer = Num 0 \<and>
   runSchedule 1 [0, 1, 0, 1]
     ([((150, 151, ''order1'', NumLit 10), Pending),
       ((150, 151, ''order2'', NumLit 10), Pending)], [summer]) =
     ([((150, 151, ''order1'', NumLit 10),
        Finished (Response 200 True (Lit ''Discount usage updated'')
                    (UsageData 1 ''SAVE10'' (Num 1) (Some (Num 0)) (Num 10)))),
       ((150, 151, ''order2'', NumLit 10),
        Finished (Response 200 True (Lit ''Discount usage updated'')
                    (UsageData 1 ''SAVE10'' (Num 1) (Some (Num 0)) (Num 10))))],
      [summer\<lparr>usedCount := Num 1, ordersUsed := Num 1, revenueGenerated := Num 10,
               remainingUses := Some (Num 0)\<rparr>])"
  by (simp add: summer_def usageLoad_def usageCommit_def
        findById_def limitReached_def save_def saveValid_def pathOk_def
        preSave_def or0_def writeBack_def writeModified_def pick_def Let_def)

section \<open>Which writes run the pre-save hook\<close>

lemma preSave_idem: "preSave now (preSave now d) = preSave now d"
  by (cases "usageLimit d") (auto simp: preSave_def Let_def)

text \<open>
  A creation and a usage recording store the document as the hook leaves it.
\<close>

lemma create_runs_preSave:
  "create now d st = Some (d', st') \<Longrightarrow> d' = preSave now d \<and> st' = st @ [preSave now d]"
  by (auto simp: create_def Let_def split: if_splits)

lemma usage_runs_preSave:
  assumes "findById i st = Some d"
    and "succeeded (fst (updateDiscountUsage now now' i orderId amt st))"
  shows "\<exists>d'. findById i (snd (updateDiscountUsage now now' i orderId amt st)) = Some d' \<and>
           preSave now' d' = d'"
  using usage_stored[OF assms] by (simp add: preSave_idem)

text \<open>
  Claim C2 fails on the owner update. \<open>updateDiscount\<close> writes through
  \<open>findByIdAndUpdate\<close>, which does not run the hook: lowering \<open>usageLimit\<close> from 10
  to 5 on a discount used 3 times leaves \<open>remainingUses\<close> at 7 where the hook computes
  2; and moving the end date of an expired discount into the future leaves the status
  expired where the hook computes active, so that the validation still refuses the code.
\<close>

theorem update_skips_preSave:
  "updateDiscount 150 7 1 (emptyBody\<lparr>ub_usageLimit := Text (Num 5)\<rparr>)
     [summer\<lparr>usageLimit := Some (Num 10), usedCount := Num 3,
              remainingUses := Some (Num 7)\<rparr>] =
     (Response 200 True (Lit ''Discount updated successfully'')
        (DocData (summer\<lparr>usageLimit := Some (Num 5), usedCount := Num 3,
                          remainingUses := Some (Num 7)\<rparr>)),
      [summer\<lparr>usageLimit := Some (Num 5), usedCount := Num 3,
               remainingUses := Some (Num 7)\<rparr>]) \<and>
   remainingUses (preSave 150 (summer\<lparr>usageLimit := Some (Num 5), usedCount := Num 3,
                                     remainingUses := Some (Num 7)\<rparr>)) = Some (Num 2) \<and>
   updateDiscount 250 7 1 (emptyBody\<lparr>ub_endDate := Some 300\<rparr>)
     [summer\<lparr>status := Expired\<rparr>] =
     (Response 200 True (Lit ''Discount updated successfully'')
        (DocData (summer\<lparr>endDate := 300, status := Expired\<rparr>)),
      [summer\<lparr>endDate := 300, status := Expired\<rparr>]) \<and>
   status (preSave 250 (summer\<lparr>endDate := 300, status := Expired\<rparr>)) = Active \<and>
   fst (validateDiscountCode 260 7 ''save10'' (Text (Num 100))
          [summer\<lparr>endDate := 300, status := Expired\<rparr>]) =
     Response 400 False (Lit ''Discount is not active'') NoData"
  by (simp add: summer_def emptyBody_def updateDiscount_def findByIdAndUpdate_def
        findById_def updateValid_def applyUpdate_def codeTaken_def replaceById_def
        validateDates_def parseInt_def preSave_def or0_def Let_def
        validateDiscountCode_def findOne_def castCode_def trim_def isSpace_def
        toUpperCase_def upper_char_def)

section \<open>Uniqueness of codes\<close>

text \<open>
  A caller-supplied code that the same owner already uses is refused before anything is
  written.
\<close>

lemma create_duplicate_same_owner:
  assumes "cb_name b \<noteq> []" and "cb_type b \<noteq> []" and "truthy_param (cb_value b)"
    and "cb_startDate b = Some s" and "cb_endDate b = Some e"
    and "validateDates now s e = None"
    and "cb_code b \<noteq> []"
    and "findOne (toUpperCase (cb_code b)) user st = Some existing"
  shows "createDiscount now now' cands user b st =
           Some (Response 400 False (Lit ''Discount code already exists for your shop'')
                   NoData, st)"
  using assms by (simp add: createDiscount_def)

text \<open>
  Claim C7 fails for two owners. Owner 7 holds "SAVE10". Owner 7 asking for it again is
  refused with "Discount code already exists for your shop"; owner 8 asking for it
  passes the handler's owner-scoped check and is then refused by the unique index on
  \<open>code\<close>, which spans all owners: the handler answers 500 and nothing is written.
  On an empty collection the same request of owner 8 succeeds.
\<close>

theorem create_same_code_other_owner:
  "createDiscount 150 151 (sconst ''AAAAAAAA'') 7 saleBody [summer] =
     Some (Response 400 False (Lit ''Discount code already exists for your shop'') NoData,
           [summer]) \<and>
   findOne (toUpperCase (cb_code saleBody)) 8 [summer] = None \<and>
   createDiscount 150 151 (sconst ''AAAAAAAA'') 8 saleBody [summer] =
     Some (Response 500 False (Lit ''Error creating discount'') ErrorData, [summer]) \<and>
   createDiscount 150 151 (sconst ''AAAAAAAA'') 8 saleBody [] =
     Some (Response 201 True (Lit ''Discount created successfully'')
             (DocData \<lparr>did = 1, name = ''Sale'', code = ''SAVE10'', dtype = Percentage,
                dvalue = Num 10, minOrder = Num 0, maxDiscount = Num 0, startDate = 100,
                endDate = 200, usageLimit = None, usedCount = Num 0,
                remainingUses = None, status = Active, revenueGenerated = Num 0,
                ordersUsed = Num 0, createdBy = 8\<rparr>),
           [\<lparr>did = 1, name = ''Sale'', code = ''SAVE10'', dtype = Percentage,
              dvalue = Num 10, minOrder = Num 0, maxDiscount = Num 0, startDate = 100,
              endDate = 200, usageLimit = None, usedCount = Num 0,
              remainingUses = None, status = Active, revenueGenerated = Num 0,
              ordersUsed = Num 0, createdBy = 8\<rparr>])"
  by (simp add: summer_def saleBody_def createDiscount_def createWith_def create_def
        validateDates_def findOne_def castCode_def castName_def trim_def isSpace_def
        toUpperCase_def upper_char_def castType_def schemaValid_def preSave_def
        codeTaken_def newId_def Let_def)

text \<open>
  The setters reach the stored document: a name of blanks is trimmed to the empty
  string, fails the \<open>required\<close> validator, and the creation is answered with status
  500.
\<close>

lemma create_blank_name:
  "createDiscount 150 151 (sconst ''AAAAAAAA'') 8 (saleBody\<lparr>cb_name := ''  ''\<rparr>) [] =
     Some (Response 500 False (Lit ''Error creating discount'') ErrorData, [])"
  by (simp add: saleBody_def createDiscount_def createWith_def create_def
        validateDates_def findOne_def castCode_def castName_def trim_def isSpace_def
        toUpperCase_def upper_char_def castType_def schemaValid_def Let_def)

section \<open>What an owner update can write\<close>

text \<open>
  Claim C8 fails on the code. The creation builds its document from named fields and
  takes \<open>createdBy\<close> from the caller; the update passes the request body as it came.
  A body that names \<open>usedCount\<close>, \<open>revenueGenerated\<close>, \<open>ordersUsed\<close> and
  \<open>createdBy\<close> overwrites them: the owner of a discount used once resets its
  \<open>usedCount\<close>, sets its accumulators and hands it to owner 8.
\<close>

theorem update_overwrites_counters:
  "updateDiscount 150 7 1
     (emptyBody\<lparr>ub_usedCount := Some (Num 0), ub_revenueGenerated := Some (Num 999),
                ub_ordersUsed := Some (Num 50), ub_createdBy := Some 8\<rparr>)
     [summer\<lparr>usedCount := Num 1, ordersUsed := Num 1, revenueGenerated := Num 10\<rparr>] =
     (Response 200 True (Lit ''Discount updated successfully'')
        (DocData (summer\<lparr>usedCount := Num 0, ordersUsed := Num 50,
                          revenueGenerated := Num 999, createdBy := 8\<rparr>)),
      [summer\<lparr>usedCount := Num 0, ordersUsed := Num 50, revenueGenerated := Num 999,
               createdBy := 8\<rparr>])"
  by (simp add: summer_def emptyBody_def updateDiscount_def findByIdAndUpdate_def
        findById_def updateValid_def applyUpdate_def codeTaken_def replaceById_def
        Let_def)

text \<open>
  An update operator in the body reaches the store too, past the \<open>min\<close> validators:
  \<open>$inc\<close> of \<open>usedCount\<close> by -1 on an unused discount stores -1.
\<close>

lemma update_inc_below_min:
  "updateDiscount 150 7 1 (emptyBody\<lparr>ub_inc := [(PUsedCount, Num (- 1))]\<rparr>) [summer] =
     (Response 200 True (Lit ''Discount updated successfully'')
        (DocData (summer\<lparr>usedCount := Num (- 1)\<rparr>)),
      [summer\<lparr>usedCount := Num (- 1)\<rparr>])"
  by (simp add: summer_def emptyBody_def updateDiscount_def findByIdAndUpdate_def
        findById_def updateValid_def applyUpdate_def codeTaken_def replaceById_def
        Let_def)

section \<open>Who writes the usage counters\<close>




end
